theory Spec2Isabelle
  imports Complex_Main "HOL-Library.Multiset"
begin

section \<open>Mood-based movie recommendation: a shallow embedding\<close>

text \<open>
  The development follows the three Python modules of the repository:
  \<^verbatim>\<open>emotion_model.py\<close> (label normalisation, confidence levels, emotion detection),
  \<^verbatim>\<open>recommender.py\<close> (emotion to genre table, aggregation of per-genre searches) and
  \<^verbatim>\<open>main.py\<close> (the workflow that ties both together).

  Conventions. The text typed by the user is an arbitrary Python string: it is the list
  of its Unicode code points, since \<^verbatim>\<open>strip\<close> depends on which code points are whitespace.
  Labels, emotions, genres and the fields of a movie are \<^typ>\<open>string\<close>; the labels
  considered are ASCII. Python integers are \<^typ>\<open>int\<close>. A confidence score is a Python
  float; it is modelled by the real number it denotes, and the literals \<^verbatim>\<open>0.8\<close>, \<^verbatim>\<open>0.6\<close>, \<^verbatim>\<open>0.4\<close> and \<^verbatim>\<open>0.0\<close> by the
  corresponding decimal fractions, so that the comparisons of the source are the order on
  the reals (rounding to binary and NaN are outside the model).
  The transformer pipeline, the network searches and the random number generator are not
  part of the repository: they are parameters of the model, the first two acting on an
  explicit world state of arbitrary type.
\<close>

subsection \<open>Strings\<close>

text \<open>\<^verbatim>\<open>str.lower()\<close> on ASCII text: the 26 capital letters are replaced, every other
  character stays. (Lower-casing turns no label with a character beyond ASCII into a key
  of the table below: the only such character with an ASCII lower case is the Kelvin sign,
  and no key has the letter k.)\<close>

definition lower_char :: "char \<Rightarrow> char" where
  "lower_char c =
     (case map_of (zip ''ABCDEFGHIJKLMNOPQRSTUVWXYZ'' ''abcdefghijklmnopqrstuvwxyz'') c of
        None \<Rightarrow> c
      | Some d \<Rightarrow> d)"

definition lower :: "string \<Rightarrow> string" where
  "lower s = map lower_char s"

text \<open>\<^verbatim>\<open>str.strip()\<close> removes leading and trailing whitespace. The whitespace of a
  Python string is Unicode's: the 29 code points for which \<^verbatim>\<open>str.isspace()\<close> holds, among
  them the ASCII ones (tab to carriage return, \<^verbatim>\<open>\x1c\<close> to \<^verbatim>\<open>\x1f\<close>, space), the next line
  control \<^verbatim>\<open>U+0085\<close>, the no-break space \<^verbatim>\<open>U+00A0\<close> and the spaces from \<^verbatim>\<open>U+1680\<close> to
  \<^verbatim>\<open>U+3000\<close>.\<close>

type_synonym unicode = "nat list"

definition is_space :: "nat \<Rightarrow> bool" where
  "is_space c = (c \<in> set [0x09, 0x0A, 0x0B, 0x0C, 0x0D, 0x1C, 0x1D, 0x1E, 0x1F, 0x20,
                           0x85, 0xA0, 0x1680,
                           0x2000, 0x2001, 0x2002, 0x2003, 0x2004, 0x2005, 0x2006, 0x2007,
                           0x2008, 0x2009, 0x200A,
                           0x2028, 0x2029, 0x202F, 0x205F, 0x3000])"

definition strip :: "unicode \<Rightarrow> unicode" where
  "strip s = rev (dropWhile is_space (rev (dropWhile is_space s)))"

subsection \<open>emotion\_model.py\<close>

text \<open>One prediction of the classifier: the dictionary with the keys
  \<^verbatim>\<open>'label'\<close> and \<^verbatim>\<open>'score'\<close>.\<close>

record prediction =
  label :: string
  score :: real

text \<open>What a call \<^verbatim>\<open>self.classifier(text)\<close> can do: raise an exception, return a list of
  predictions, or return a single prediction.\<close>

datatype classifier_outcome =
    Raises
  | PredictionList "prediction list"
  | SinglePrediction prediction

text \<open>The dictionary returned by \<^verbatim>\<open>detect_emotion\<close>.\<close>

record emotion_result =
  emotion :: string
  confidence :: real
  raw_prediction :: "prediction option"
  normalized_emotion :: string

text \<open>The dictionary \<^verbatim>\<open>emotion_mapping\<close> of \<^verbatim>\<open>_normalize_emotion\<close>, in the order of the
  source.\<close>

definition emotion_mapping :: "(string \<times> string) list" where
  "emotion_mapping =
     [(''joy'', ''joy''),
      (''happiness'', ''joy''),
      (''love'', ''love''),
      (''positive'', ''joy''),
      (''sadness'', ''sadness''),
      (''grief'', ''sadness''),
      (''negative'', ''sadness''),
      (''anger'', ''anger''),
      (''rage'', ''anger''),
      (''frustration'', ''anger''),
      (''fear'', ''fear''),
      (''anxiety'', ''fear''),
      (''worry'', ''fear''),
      (''surprise'', ''surprise''),
      (''amazement'', ''surprise''),
      (''neutral'', ''neutral''),
      (''disgust'', ''neutral''),
      (''anticipation'', ''surprise''),
      (''trust'', ''joy'')]"

text \<open>\<^verbatim>\<open>emotion_mapping.get(emotion_label, 'neutral')\<close>.\<close>

definition normalize_emotion :: "string \<Rightarrow> string" where
  "normalize_emotion emotion_label =
     (case map_of emotion_mapping emotion_label of
        None \<Rightarrow> ''neutral''
      | Some e \<Rightarrow> e)"

datatype confidence_level = high | medium | low | very_low

definition get_emotion_confidence_level :: "real \<Rightarrow> confidence_level" where
  "get_emotion_confidence_level c =
     (if c \<ge> 0.8 then high
      else if c \<ge> 0.6 then medium
      else if c \<ge> 0.4 then low
      else very_low)"

text \<open>\<^verbatim>\<open>prediction[0] if isinstance(prediction, list) else prediction\<close>; indexing an empty
  list raises \<^verbatim>\<open>IndexError\<close>, which is \<^const>\<open>None\<close> here.\<close>

fun top_prediction :: "classifier_outcome \<Rightarrow> prediction option" where
  "top_prediction Raises = None"
| "top_prediction (PredictionList []) = None"
| "top_prediction (PredictionList (p # ps)) = Some p"
| "top_prediction (SinglePrediction p) = Some p"

text \<open>\<^verbatim>\<open>EmotionDetector.detect_emotion\<close>. The classifier is called with the stripped text
  and may change the world; every exception raised inside the \<^verbatim>\<open>try\<close> block ends in
  the handler, which returns a dictionary of its own.\<close>

definition detect_emotion ::
  "(unicode \<Rightarrow> 'w \<Rightarrow> classifier_outcome \<times> 'w) \<Rightarrow> unicode \<Rightarrow> 'w \<Rightarrow> emotion_result \<times> 'w" where
  "detect_emotion classifier text w =
     (if text = [] \<or> strip text = []
      then (\<lparr>emotion = ''neutral'', confidence = 0.0, raw_prediction = None,
             normalized_emotion = ''neutral''\<rparr>, w)
      else
        (let (outcome, w') = classifier (strip text) w in
         case top_prediction outcome of
           None \<Rightarrow>
             (\<lparr>emotion = ''neutral'', confidence = 0.0, raw_prediction = None,
               normalized_emotion = ''neutral''\<rparr>, w')
         | Some top_pred \<Rightarrow>
             (let emotion_label = lower (label top_pred);
                  confidence = score top_pred;
                  normalized_emotion = normalize_emotion emotion_label
              in (\<lparr>emotion = emotion_label, confidence = confidence,
                   raw_prediction = Some top_pred,
                   normalized_emotion = normalized_emotion\<rparr>, w'))))"

subsection \<open>recommender.py\<close>

text \<open>The exceptions that the modelled code can raise.\<close>

datatype py_error = KeyError | ZeroDivisionError

text \<open>The dictionary built by \<^verbatim>\<open>get_movie_details\<close>.\<close>

record movie =
  title :: string
  year :: string
  genre :: string
  director :: string
  plot :: string
  poster :: string
  imdb_rating :: string
  imdb_id :: string
  link :: string

text \<open>\<^verbatim>\<open>self.emotion_genre_mapping\<close>, in the order of the source.\<close>

definition emotion_genre_mapping :: "(string \<times> string list) list" where
  "emotion_genre_mapping =
     [(''joy'', [''Comedy'', ''Romance'', ''Family'', ''Animation'', ''Musical'']),
      (''love'', [''Romance'', ''Comedy'', ''Family'', ''Drama'']),
      (''sadness'', [''Drama'', ''Animation'', ''Biography'', ''Romance'']),
      (''anger'', [''Comedy'', ''Adventure'', ''Action'', ''Thriller'']),
      (''fear'', [''Family'', ''Fantasy'', ''Adventure'', ''Animation'']),
      (''surprise'', [''Mystery'', ''Adventure'', ''Thriller'', ''Sci-Fi'']),
      (''neutral'', [''Action'', ''Adventure'', ''Comedy'', ''Drama''])]"

text \<open>\<^verbatim>\<open>self.emotion_genre_mapping.get(emotion, self.emotion_genre_mapping['neutral'])\<close>:
  the default is evaluated first, and a missing key \<^verbatim>\<open>'neutral'\<close> would raise.\<close>

definition get_genres_for_emotion :: "string \<Rightarrow> py_error + string list" where
  "get_genres_for_emotion emo =
     (case map_of emotion_genre_mapping ''neutral'' of
        None \<Rightarrow> Inl KeyError
      | Some fallback \<Rightarrow>
          Inr (case map_of emotion_genre_mapping emo of
                 None \<Rightarrow> fallback
               | Some genres \<Rightarrow> genres))"

text \<open>\<^verbatim>\<open>max(1, num_recommendations // len(genres)) + 1\<close>; \<^verbatim>\<open>//\<close> is floor division, as
  \<open>div\<close> on \<^typ>\<open>int\<close> is, and raises for a zero divisor.\<close>

definition movies_per_genre :: "int \<Rightarrow> string list \<Rightarrow> py_error + int" where
  "movies_per_genre num_recommendations genres =
     (if length genres = 0 then Inl ZeroDivisionError
      else Inr (max 1 (num_recommendations div int (length genres)) + 1))"

text \<open>The loop over the genres. \<^verbatim>\<open>search_movies_by_genre\<close> talks to the network: it is the
  parameter \<open>search\<close>, which takes the genre, the limit and the world and returns the movies
  found and the new world (it catches its own exceptions, so it always returns a list).\<close>

fun search_genres ::
  "(string \<Rightarrow> int \<Rightarrow> 'w \<Rightarrow> movie list \<times> 'w) \<Rightarrow> string list \<Rightarrow> int \<Rightarrow> movie list \<Rightarrow> 'w
     \<Rightarrow> movie list \<times> 'w" where
  "search_genres search [] limit all_movies w = (all_movies, w)"
| "search_genres search (g # gs) limit all_movies w =
     (let (genre_movies, w') = search g limit w
      in search_genres search gs limit (all_movies @ genre_movies) w')"

text \<open>The loop that fills the dictionary \<^verbatim>\<open>unique_movies\<close>. A Python dictionary keeps its
  keys in insertion order, so it is an association list that grows at the end.\<close>

fun remove_duplicates :: "movie list \<Rightarrow> (string \<times> movie) list \<Rightarrow> (string \<times> movie) list" where
  "remove_duplicates [] unique_movies = unique_movies"
| "remove_duplicates (m # ms) unique_movies =
     (if map_of unique_movies (imdb_id m) = None
      then remove_duplicates ms (unique_movies @ [(imdb_id m, m)])
      else remove_duplicates ms unique_movies)"

text \<open>\<^verbatim>\<open>random.shuffle(x)\<close> of the standard library:
  \<^verbatim>\<open>for i in reversed(range(1, len(x))): j = randbelow(i + 1); x[i], x[j] = x[j], x[i]\<close>.
  The random source is the parameter \<open>randbelow\<close>; each bound occurs once in a shuffle, so
  a function of the bound describes every run. Its value is reduced modulo the bound, so
  that every function is a source.\<close>

fun shuffle_from :: "(nat \<Rightarrow> nat) \<Rightarrow> nat \<Rightarrow> 'a list \<Rightarrow> 'a list" where
  "shuffle_from randbelow 0 x = x"
| "shuffle_from randbelow (Suc k) x =
     (let i = Suc k;
          j = randbelow (i + 1) mod (i + 1)
      in shuffle_from randbelow k (x[i := x ! j, j := x ! i]))"

definition shuffle :: "(nat \<Rightarrow> nat) \<Rightarrow> 'a list \<Rightarrow> 'a list" where
  "shuffle randbelow x = shuffle_from randbelow (length x - 1) x"

text \<open>The slice \<^verbatim>\<open>x[:n]\<close>: a negative \<open>n\<close> counts from the end.\<close>

definition slice_to :: "int \<Rightarrow> 'a list \<Rightarrow> 'a list" where
  "slice_to n x = (if n \<ge> 0 then take (nat n) x else take (length x - nat (- n)) x)"

text \<open>\<^verbatim>\<open>MovieRecommender.recommend_movies\<close>. An exception can only be raised before the
  first search.\<close>

definition recommend_movies ::
  "(string \<Rightarrow> int \<Rightarrow> 'w \<Rightarrow> movie list \<times> 'w) \<Rightarrow> (nat \<Rightarrow> nat) \<Rightarrow> string \<Rightarrow> int \<Rightarrow> 'w
     \<Rightarrow> py_error + (movie list \<times> 'w)" where
  "recommend_movies search randbelow emo num_recommendations w =
     (case get_genres_for_emotion emo of
        Inl e \<Rightarrow> Inl e
      | Inr genres \<Rightarrow>
          (case movies_per_genre num_recommendations genres of
             Inl e \<Rightarrow> Inl e
           | Inr limit \<Rightarrow>
               (let (all_movies, w') = search_genres search genres limit [] w;
                    unique_movies = remove_duplicates all_movies [];
                    unique_movies_list = shuffle randbelow (map snd unique_movies);
                    recommendations = slice_to num_recommendations unique_movies_list
                in Inr (recommendations, w'))))"

text \<open>A search that also writes down each request (genre and limit) it receives, in
  order: the instrument for statements about what the searches are asked.\<close>

definition recording ::
  "(string \<Rightarrow> int \<Rightarrow> 'w \<Rightarrow> movie list \<times> 'w)
     \<Rightarrow> string \<Rightarrow> int \<Rightarrow> (string \<times> int) list \<times> 'w \<Rightarrow> movie list \<times> (string \<times> int) list \<times> 'w" where
  "recording search g limit lw =
     (let (found, w') = search g limit (snd lw)
      in (found, fst lw @ [(g, limit)], w'))"

subsection \<open>main.py\<close>

text \<open>The dictionary returned by \<^verbatim>\<open>analyze_mood_and_recommend\<close>.\<close>

record analysis =
  emotion_analysis :: emotion_result
  detected_emotion :: string
  confidence :: real
  confidence_level :: confidence_level
  recommendations :: "movie list"
  genres :: "string list"

text \<open>The lines that \<^verbatim>\<open>analyze_mood_and_recommend\<close> prints, one constructor for each
  \<^verbatim>\<open>print\<close> of the method (the wording and the decoration of the lines are left out).\<close>

datatype message =
    AnalyzingMood unicode
  | DetectedEmotion string real confidence_level
  | LowConfidenceWarning
  | LowConfidenceTip
  | FindingMovies string
  | NoMoviesFound
  | TryDifferently
  | RecommendationsHeader nat string
  | Rule
  | MovieLine nat movie
  | RecommendationError py_error

text \<open>The loop \<^verbatim>\<open>for i, movie in enumerate(recommendations, 1)\<close>.\<close>

fun movie_lines :: "nat \<Rightarrow> movie list \<Rightarrow> message list" where
  "movie_lines i [] = []"
| "movie_lines i (m # ms) = MovieLine i m # Rule # movie_lines (Suc i) ms"

text \<open>\<^verbatim>\<open>MoodMovieRecommendationAgent.analyze_mood_and_recommend\<close>: the value returned
  (\<^const>\<open>None\<close> for Python's \<^verbatim>\<open>None\<close>), the lines printed and the new world. The call of
  the recommender and the construction of the result are inside one \<^verbatim>\<open>try\<close> block,
  whose handler prints the error and returns \<^verbatim>\<open>None\<close>.\<close>

definition analyze_mood_and_recommend ::
  "(unicode \<Rightarrow> 'w \<Rightarrow> classifier_outcome \<times> 'w) \<Rightarrow> (string \<Rightarrow> int \<Rightarrow> 'w \<Rightarrow> movie list \<times> 'w)
     \<Rightarrow> (nat \<Rightarrow> nat) \<Rightarrow> unicode \<Rightarrow> int \<Rightarrow> 'w \<Rightarrow> analysis option \<times> message list \<times> 'w" where
  "analyze_mood_and_recommend classifier search randbelow user_input num_recommendations w =
     (let (emotion_result, w1) = detect_emotion classifier user_input w;
          detected = normalized_emotion emotion_result;
          conf = emotion_result.confidence emotion_result;
          conf_level = get_emotion_confidence_level conf;
          out1 = [AnalyzingMood user_input, DetectedEmotion detected conf conf_level];
          out2 = out1 @ (if conf < 0.4 then [LowConfidenceWarning, LowConfidenceTip] else []);
          out3 = out2 @ [FindingMovies detected]
      in case recommend_movies search randbelow detected num_recommendations w1 of
           Inl e \<Rightarrow> (None, out3 @ [RecommendationError e], w1)
         | Inr (recs, w2) \<Rightarrow>
             if recs = [] then (None, out3 @ [NoMoviesFound, TryDifferently], w2)
             else
               (let out4 = out3 @ [RecommendationsHeader (length recs) detected, Rule]
                             @ movie_lines 1 recs
                in case get_genres_for_emotion detected of
                     Inl e \<Rightarrow> (None, out4 @ [RecommendationError e], w2)
                   | Inr gs \<Rightarrow>
                       (Some \<lparr>emotion_analysis = emotion_result,
                              detected_emotion = detected,
                              confidence = conf,
                              confidence_level = conf_level,
                              recommendations = recs,
                              genres = gs\<rparr>,
                        out4, w2)))"

subsection \<open>Reference functions and test doubles\<close>

text \<open>What the loop over \<^verbatim>\<open>all_movies\<close> is meant to compute, written directly: the movies
  whose identifier has not been seen before, in their order.\<close>

fun first_occurrences :: "string set \<Rightarrow> movie list \<Rightarrow> movie list" where
  "first_occurrences seen [] = []"
| "first_occurrences seen (m # ms) =
     (if imdb_id m \<in> seen then first_occurrences seen ms
      else m # first_occurrences (insert (imdb_id m) seen) ms)"

text \<open>A catalogue that finds nothing, and a random source that always draws index 0.\<close>

definition no_results :: "string \<Rightarrow> int \<Rightarrow> 'w \<Rightarrow> movie list \<times> 'w" where
  "no_results g limit w = ([], w)"

definition always_first :: "nat \<Rightarrow> nat" where
  "always_first n = 0"

text \<open>A movie as \<^verbatim>\<open>get_movie_details\<close> builds it when the service only knows the title.\<close>

definition sample_movie :: "string \<Rightarrow> string \<Rightarrow> movie" where
  "sample_movie ident t =
     \<lparr>title = t, year = ''N/A'', genre = ''N/A'', director = ''N/A'', plot = ''N/A'',
      poster = ''N/A'', imdb_rating = ''N/A'', imdb_id = ident,
      link = ''https://www.imdb.com/title/'' @ ident @ ''/''\<rparr>"

text \<open>A catalogue in which two genres return a movie with the identifier \<^verbatim>\<open>tt001\<close>, under
  different titles.\<close>

definition overlapping_catalog :: "string \<Rightarrow> int \<Rightarrow> 'w \<Rightarrow> movie list \<times> 'w" where
  "overlapping_catalog g limit w =
     (if g = ''Comedy'' then [sample_movie ''tt001'' ''First'']
      else if g = ''Romance''
        then [sample_movie ''tt001'' ''Second'', sample_movie ''tt002'' ''Other'']
      else [], w)"

text \<open>A classifier that always answers with the same prediction, and one that always
  raises and counts its calls in the world.\<close>

definition fixed_classifier :: "prediction \<Rightarrow> unicode \<Rightarrow> 'w \<Rightarrow> classifier_outcome \<times> 'w" where
  "fixed_classifier p t w = (PredictionList [p], w)"

definition failing_classifier :: "unicode \<Rightarrow> nat \<Rightarrow> classifier_outcome \<times> nat" where
  "failing_classifier t calls = (Raises, Suc calls)"

text \<open>The code points of a text written in ASCII.\<close>

definition codepoints :: "string \<Rightarrow> unicode" where
  "codepoints s = map of_char s"

section \<open>Auxiliary lemmas\<close>

lemma genres_nonempty: "\<exists>gs. get_genres_for_emotion e = Inr gs \<and> gs \<noteq> []"
  by (simp add: get_genres_for_emotion_def emotion_genre_mapping_def)

lemma movies_per_genre_ok:
  "gs \<noteq> [] \<Longrightarrow> movies_per_genre n gs = Inr (max 1 (n div int (length gs)) + 1)"
  by (simp add: movies_per_genre_def)

lemma search_genres_acc:
  "search_genres search gs limit acc w =
     (acc @ fst (search_genres search gs limit [] w), snd (search_genres search gs limit [] w))"
proof (induction gs arbitrary: acc w)
  case Nil
  show ?case by simp
next
  case (Cons g gs)
  obtain found w1 where s: "search g limit w = (found, w1)" by (cases "search g limit w")
  have a: "search_genres search gs limit (acc @ found) w1 =
        ((acc @ found) @ fst (search_genres search gs limit [] w1), snd (search_genres search gs limit [] w1))"
    by (rule Cons.IH)
  have b: "search_genres search gs limit ([] @ found) w1 =
        (([] @ found) @ fst (search_genres search gs limit [] w1), snd (search_genres search gs limit [] w1))"
    by (rule Cons.IH)
  show ?case using a b s by simp
qed

lemma remove_duplicates_first_occurrences:
  "remove_duplicates ms um =
     um @ map (\<lambda>m. (imdb_id m, m)) (first_occurrences (fst ` set um) ms)"
proof (induction ms arbitrary: um)
  case Nil
  show ?case by simp
next
  case (Cons m ms)
  show ?case
  proof (cases "map_of um (imdb_id m) = None")
    case True
    then have "imdb_id m \<notin> fst ` set um" by (simp add: map_of_eq_None_iff)
    with True Cons.IH [of "um @ [(imdb_id m, m)]"] show ?thesis by simp
  next
    case False
    then have seen: "imdb_id m \<in> fst ` set um" by (simp add: map_of_eq_None_iff)
    from False have "remove_duplicates (m # ms) um = remove_duplicates ms um" by auto
    with seen Cons.IH [of um] show ?thesis by simp
  qed
qed

lemma first_occurrences_ids:
  "imdb_id ` set (first_occurrences seen ms) = imdb_id ` set ms - seen"
  by (induction ms arbitrary: seen) auto

lemma first_occurrences_distinct: "distinct (map imdb_id (first_occurrences seen ms))"
  by (induction ms arbitrary: seen) (auto simp: first_occurrences_ids)

lemma first_occurrences_find:
  "m \<in> set (first_occurrences seen ms) \<Longrightarrow> find (\<lambda>x. imdb_id x = imdb_id m) ms = Some m"
proof (induction ms arbitrary: seen)
  case Nil
  then show ?case by simp
next
  case (Cons a ms)
  show ?case
  proof (cases "imdb_id a \<in> seen")
    case True
    with Cons.prems have in_rest: "m \<in> set (first_occurrences seen ms)" by simp
    then have "imdb_id m \<in> imdb_id ` set (first_occurrences seen ms)" by blast
    then have "imdb_id m \<notin> seen" by (simp add: first_occurrences_ids)
    with True have "imdb_id a \<noteq> imdb_id m" by auto
    with Cons.IH [OF in_rest] show ?thesis by simp
  next
    case False
    with Cons.prems have "m = a \<or> m \<in> set (first_occurrences (insert (imdb_id a) seen) ms)"
      by simp
    then show ?thesis
    proof
      assume "m = a"
      then show ?thesis by simp
    next
      assume in_rest: "m \<in> set (first_occurrences (insert (imdb_id a) seen) ms)"
      then have "imdb_id m \<in> imdb_id ` set (first_occurrences (insert (imdb_id a) seen) ms)"
        by blast
      then have "imdb_id a \<noteq> imdb_id m" by (auto simp: first_occurrences_ids)
      with Cons.IH [OF in_rest] show ?thesis by simp
    qed
  qed
qed

lemma length_first_occurrences:
  "length (first_occurrences seen ms) = card (imdb_id ` set ms - seen)"
proof -
  have "length (first_occurrences seen ms) = length (map imdb_id (first_occurrences seen ms))"
    by simp
  also have "\<dots> = card (set (map imdb_id (first_occurrences seen ms)))"
    by (rule distinct_card [symmetric]) (rule first_occurrences_distinct)
  also have "\<dots> = card (imdb_id ` set ms - seen)"
    by (simp add: first_occurrences_ids)
  finally show ?thesis .
qed

lemma unique_values: "map snd (remove_duplicates ms []) = first_occurrences {} ms"
  by (simp add: remove_duplicates_first_occurrences o_def)

lemma mset_shuffle_from: "k < length x \<Longrightarrow> mset (shuffle_from randbelow k x) = mset x"
proof (induction k arbitrary: x)
  case 0
  show ?case by simp
next
  case (Suc k)
  let ?j = "randbelow (Suc k + 1) mod (Suc k + 1)"
  let ?y = "x[Suc k := x ! ?j, ?j := x ! Suc k]"
  have j: "?j < length x" using Suc.prems by (simp add: less_le_trans [OF mod_less_divisor])
  have "mset ?y = mset x" using j Suc.prems by (rule mset_swap)
  moreover have "k < length ?y" using Suc.prems by simp
  ultimately show ?case using Suc.IH [of ?y] by (simp add: Let_def)
qed

lemma mset_shuffle: "mset (shuffle randbelow x) = mset x"
proof (cases x)
  case Nil
  then show ?thesis by (simp add: shuffle_def)
next
  case (Cons a as)
  then show ?thesis by (simp add: shuffle_def mset_shuffle_from)
qed

lemma set_shuffle: "set (shuffle randbelow x) = set x"
  by (rule mset_eq_setD) (rule mset_shuffle)

lemma length_shuffle: "length (shuffle randbelow x) = length x"
  by (rule mset_eq_length) (rule mset_shuffle)

lemma distinct_map_shuffle: "distinct (map f (shuffle randbelow x)) = distinct (map f x)"
proof -
  have "mset (map f (shuffle randbelow x)) = mset (map f x)"
    by (simp add: mset_shuffle)
  then show ?thesis by (rule mset_eq_imp_distinct_iff)
qed

lemma set_slice_to: "set (slice_to n x) \<subseteq> set x"
  by (auto simp: slice_to_def dest: in_set_takeD)

lemma distinct_map_slice_to: "distinct (map f x) \<Longrightarrow> distinct (map f (slice_to n x))"
  by (simp add: slice_to_def take_map [symmetric])

lemma length_slice_to: "0 \<le> n \<Longrightarrow> length (slice_to n x) = min (nat n) (length x)"
  by (simp add: slice_to_def)

lemma search_genres_recording:
  "search_genres (recording search) gs limit acc (reqs, w) =
     (fst (search_genres search gs limit acc w), reqs @ map (\<lambda>g. (g, limit)) gs,
      snd (search_genres search gs limit acc w))"
proof (induction gs arbitrary: acc reqs w)
  case Nil
  show ?case by simp
next
  case (Cons g gs)
  obtain found w1 where s: "search g limit w = (found, w1)" by (cases "search g limit w")
  then have r: "recording search g limit (reqs, w) = (found, reqs @ [(g, limit)], w1)"
    by (simp add: recording_def)
  show ?case using s r Cons.IH [of "acc @ found" "reqs @ [(g, limit)]" w1] by simp
qed

lemma recommend_movies_steps:
  assumes "get_genres_for_emotion e = Inr gs"
    and "movies_per_genre n gs = Inr limit"
    and "search_genres search gs limit [] w = (all_movies, w')"
  shows "recommend_movies search randbelow e n w =
     Inr (slice_to n (shuffle randbelow (map snd (remove_duplicates all_movies []))), w')"
  using assms by (simp add: recommend_movies_def)

lemma recommend_movies_runs:
  "\<exists>gs limit all_movies w'.
     gs \<noteq> [] \<and> get_genres_for_emotion e = Inr gs \<and>
     limit = max 1 (n div int (length gs)) + 1 \<and>
     movies_per_genre n gs = Inr limit \<and>
     search_genres search gs limit [] w = (all_movies, w') \<and>
     recommend_movies search randbelow e n w =
       Inr (slice_to n (shuffle randbelow (first_occurrences {} all_movies)), w')"
proof -
  obtain gs where gs: "get_genres_for_emotion e = Inr gs" "gs \<noteq> []"
    using genres_nonempty by blast
  let ?limit = "max 1 (n div int (length gs)) + 1"
  have lim: "movies_per_genre n gs = Inr ?limit" using gs(2) by (rule movies_per_genre_ok)
  obtain all_movies w' where s: "search_genres search gs ?limit [] w = (all_movies, w')"
    by (cases "search_genres search gs ?limit [] w")
  have "recommend_movies search randbelow e n w =
      Inr (slice_to n (shuffle randbelow (first_occurrences {} all_movies)), w')"
    using recommend_movies_steps [OF gs(1) lim s] by (simp add: unique_values)
  with gs lim s show ?thesis by blast
qed


lemmas string_defs = strip_def is_space_def lower_def lower_char_def

lemma strip_blank:
  assumes "\<forall>c\<in>set s. is_space c"
  shows "strip s = []"
  using assms by (auto simp: strip_def dest: set_dropWhileD)

lemma strip_not_blank:
  assumes "\<not> (\<forall>c\<in>set s. is_space c)"
  shows "strip s \<noteq> []"
proof -
  let ?t = "dropWhile is_space s"
  from assms have ne: "?t \<noteq> []" by (simp add: dropWhile_eq_Nil_conv)
  then have "\<not> is_space (hd ?t)" by (rule hd_dropWhile)
  moreover from ne have "hd ?t \<in> set (rev ?t)" by simp
  ultimately have "dropWhile is_space (rev ?t) \<noteq> []"
    by (auto simp: dropWhile_eq_Nil_conv simp del: set_rev)
  then show ?thesis by (simp add: strip_def)
qed

lemma movie_lines_no_warning: "LowConfidenceWarning \<notin> set (movie_lines i ms)"
  by (induction ms arbitrary: i) auto

lemmas run_defs = recommend_movies_def get_genres_for_emotion_def emotion_genre_mapping_def
  movies_per_genre_def shuffle_def slice_to_def Let_def

lemmas stub_defs = recording_def no_results_def always_first_def overlapping_catalog_def
  sample_movie_def fixed_classifier_def failing_classifier_def codepoints_def

lemmas emotion_defs = detect_emotion_def strip_def is_space_def lower_def lower_char_def
  normalize_emotion_def emotion_mapping_def get_emotion_confidence_level_def Let_def

section \<open>The claims\<close>

subsection \<open>Confidence levels\<close>

text \<open>
  Claim C4, as amended. \<^verbatim>\<open>get_emotion_confidence_level\<close> is a step function of the score:
  it returns \<open>high\<close> exactly for the scores from 0.8 on, \<open>medium\<close> exactly on \<open>[0.6, 0.8)\<close>,
  \<open>low\<close> exactly on \<open>[0.4, 0.6)\<close> and \<open>very_low\<close> exactly below 0.4. In particular 0.79 is
  \<open>medium\<close> (not \<open>low\<close>, as the claim has it), 0.8 is \<open>high\<close>, 0.59 is \<open>low\<close>, 0.6 is
  \<open>medium\<close>, 0.39 is \<open>very_low\<close> and 0.4 is \<open>low\<close>.
\<close>

theorem confidence_level_breakpoints:
  "(get_emotion_confidence_level c = high \<longleftrightarrow> 0.8 \<le> c) \<and>
   (get_emotion_confidence_level c = medium \<longleftrightarrow> 0.6 \<le> c \<and> c < 0.8) \<and>
   (get_emotion_confidence_level c = low \<longleftrightarrow> 0.4 \<le> c \<and> c < 0.6) \<and>
   (get_emotion_confidence_level c = very_low \<longleftrightarrow> c < 0.4) \<and>
   get_emotion_confidence_level 0.79 = medium \<and>
   get_emotion_confidence_level 0.8 = high \<and>
   get_emotion_confidence_level 0.59 = low \<and>
   get_emotion_confidence_level 0.6 = medium \<and>
   get_emotion_confidence_level 0.39 = very_low \<and>
   get_emotion_confidence_level 0.4 = low"
  by (simp add: get_emotion_confidence_level_def)

text \<open>Claim C4 as stated fails at the score 0.79, which the code does not put in \<open>low\<close>.\<close>

theorem confidence_level_079_not_low: "get_emotion_confidence_level 0.79 \<noteq> low"
  by (simp add: get_emotion_confidence_level_def)

subsection \<open>Genres of an emotion\<close>

text \<open>
  Claim C5. \<^verbatim>\<open>get_genres_for_emotion\<close> never raises and returns the documented list of
  genres for each of the seven emotions; for every other string it returns the list
  of \<open>neutral\<close>.
\<close>

theorem genres_for_emotion_table:
  "get_genres_for_emotion ''joy'' =
     Inr [''Comedy'', ''Romance'', ''Family'', ''Animation'', ''Musical''] \<and>
   get_genres_for_emotion ''love'' = Inr [''Romance'', ''Comedy'', ''Family'', ''Drama''] \<and>
   get_genres_for_emotion ''sadness'' =
     Inr [''Drama'', ''Animation'', ''Biography'', ''Romance''] \<and>
   get_genres_for_emotion ''anger'' = Inr [''Comedy'', ''Adventure'', ''Action'', ''Thriller''] \<and>
   get_genres_for_emotion ''fear'' = Inr [''Family'', ''Fantasy'', ''Adventure'', ''Animation''] \<and>
   get_genres_for_emotion ''surprise'' =
     Inr [''Mystery'', ''Adventure'', ''Thriller'', ''Sci-Fi''] \<and>
   get_genres_for_emotion ''neutral'' = Inr [''Action'', ''Adventure'', ''Comedy'', ''Drama''] \<and>
   (e \<notin> set [''joy'', ''love'', ''sadness'', ''anger'', ''fear'', ''surprise'', ''neutral''] \<longrightarrow>
      get_genres_for_emotion e = Inr [''Action'', ''Adventure'', ''Comedy'', ''Drama''])"
  by (simp add: get_genres_for_emotion_def emotion_genre_mapping_def)

text \<open>The default at a string outside the seven emotions.\<close>

theorem genres_for_emotion_table_witness:
  "''boredom'' \<notin> set [''joy'', ''love'', ''sadness'', ''anger'', ''fear'', ''surprise'', ''neutral''] \<and>
   get_genres_for_emotion ''boredom'' = Inr [''Action'', ''Adventure'', ''Comedy'', ''Drama'']"
  using genres_for_emotion_table [of "''boredom''"] by simp

subsection \<open>Normalisation of labels\<close>



subsection \<open>Detection on blank input and on a failing classifier\<close>

text \<open>
  Claim C6. For every text that is empty or consists of whitespace only, \<^verbatim>\<open>detect_emotion\<close>
  returns the raw prediction \<^verbatim>\<open>None\<close>, the confidence 0.0 and the normalized emotion
  \<open>neutral\<close>, whose confidence level is \<open>very_low\<close>; the world is the one it was given,
  whatever the classifier would do to it: the classifier is not called.
\<close>

theorem detect_emotion_blank:
  assumes "\<forall>c\<in>set text. is_space c"
  shows "detect_emotion classifier text w =
           (\<lparr>emotion = ''neutral'', emotion_result.confidence = 0, raw_prediction = None,
             normalized_emotion = ''neutral''\<rparr>, w) \<and>
         get_emotion_confidence_level
           (emotion_result.confidence (fst (detect_emotion classifier text w))) = very_low"
proof -
  from assms have "strip text = []" by (rule strip_blank)
  then show ?thesis by (simp add: detect_emotion_def get_emotion_confidence_level_def)
qed

text \<open>
  Three spaces, the empty text, and a text of a no-break space, an em space, a tab and a
  next line control, with a classifier that counts its calls: the counter stays at 0.
\<close>

theorem detect_emotion_blank_witness:
  "strip (codepoints ''   '') = [] \<and>
   detect_emotion failing_classifier (codepoints ''   '') 0 =
     (\<lparr>emotion = ''neutral'', emotion_result.confidence = 0, raw_prediction = None,
       normalized_emotion = ''neutral''\<rparr>, 0) \<and>
   detect_emotion failing_classifier [] 0 =
     (\<lparr>emotion = ''neutral'', emotion_result.confidence = 0, raw_prediction = None,
       normalized_emotion = ''neutral''\<rparr>, 0) \<and>
   detect_emotion failing_classifier [0xA0, 0x2003, 0x09, 0x85] 0 =
     (\<lparr>emotion = ''neutral'', emotion_result.confidence = 0, raw_prediction = None,
       normalized_emotion = ''neutral''\<rparr>, 0)"
proof -
  have blank: "\<forall>c\<in>set (codepoints ''   ''). is_space c"
    by (simp add: codepoints_def is_space_def)
  have none: "\<forall>c\<in>set []. is_space c" by simp
  have wide: "\<forall>c\<in>set [0xA0, 0x2003, 0x09, 0x85]. is_space c" by (simp add: is_space_def)
  from strip_blank [OF blank] detect_emotion_blank [OF blank, of failing_classifier 0]
    detect_emotion_blank [OF none, of failing_classifier 0]
    detect_emotion_blank [OF wide, of failing_classifier 0]
  show ?thesis by blast
qed

text \<open>
  Claim C7. For every non-empty text, if the call of the classifier raises, then
  \<^verbatim>\<open>detect_emotion\<close> returns a result all the same, and it is the result for empty input:
  raw prediction \<^verbatim>\<open>None\<close>, confidence 0.0, normalized emotion \<open>neutral\<close>. (A text of
  whitespace only never reaches the classifier, and the world stays as it was.)
\<close>

theorem detect_emotion_classifier_raises:
  assumes "text \<noteq> []"
    and "classifier (strip text) w = (Raises, w')"
  shows "detect_emotion classifier text w =
           (\<lparr>emotion = ''neutral'', emotion_result.confidence = 0, raw_prediction = None,
             normalized_emotion = ''neutral''\<rparr>, if strip text = [] then w else w') \<and>
         fst (detect_emotion classifier text w) = fst (detect_emotion classifier [] w)"
  using assms by (simp add: detect_emotion_def)

text \<open>
  A text with a word in it and the classifier that always raises: one call is counted,
  and the neutral result comes back.
\<close>

theorem detect_emotion_classifier_raises_witness:
  "(codepoints '' I am sad '') \<noteq> [] \<and>
   failing_classifier (strip (codepoints '' I am sad '')) 0 = (Raises, 1) \<and>
   detect_emotion failing_classifier (codepoints '' I am sad '') 0 =
     (\<lparr>emotion = ''neutral'', emotion_result.confidence = 0, raw_prediction = None,
       normalized_emotion = ''neutral''\<rparr>, 1)"
proof -
  have nonempty: "(codepoints '' I am sad '') \<noteq> []" by (simp add: codepoints_def)
  have raises: "failing_classifier (strip (codepoints '' I am sad '')) 0 = (Raises, 1)"
    by (simp add: failing_classifier_def)
  have stripped: "strip (codepoints '' I am sad '') \<noteq> []"
    by (simp add: codepoints_def strip_def is_space_def)
  from nonempty raises stripped
    detect_emotion_classifier_raises [of "codepoints '' I am sad ''" failing_classifier 0 1,
      OF nonempty raises]
  show ?thesis by simp
qed

subsection \<open>The recommender\<close>

text \<open>
  Claim C1, as amended. For every emotion, with \<open>G\<close> the number of its genres, and every
  requested count \<open>n\<close>, \<^verbatim>\<open>recommend_movies\<close> does not raise and asks each genre of the
  emotion once, in table order, for exactly \<open>max 1 (n div G) + 1\<close> movies. This is
  \<open>n div G + 1\<close> whenever \<open>n\<close> is at least \<open>G\<close> (for a smaller positive count it is 2).
\<close>

theorem requests_per_genre:
  "\<exists>gs recs w'.
     get_genres_for_emotion e = Inr gs \<and> gs \<noteq> [] \<and>
     recommend_movies (recording search) randbelow e n (reqs, w) =
       Inr (recs, reqs @ map (\<lambda>g. (g, max 1 (n div int (length gs)) + 1)) gs, w') \<and>
     (int (length gs) \<le> n \<longrightarrow>
        max 1 (n div int (length gs)) + 1 = n div int (length gs) + 1)"
proof -
  obtain gs limit all_movies lw where run:
    "gs \<noteq> []" "get_genres_for_emotion e = Inr gs"
    "limit = max 1 (n div int (length gs)) + 1"
    "search_genres (recording search) gs limit [] (reqs, w) = (all_movies, lw)"
    "recommend_movies (recording search) randbelow e n (reqs, w) =
       Inr (slice_to n (shuffle randbelow (first_occurrences {} all_movies)), lw)"
    using recommend_movies_runs [of e n "recording search" "(reqs, w)" randbelow] by blast
  from run(4) have lw: "lw = (reqs @ map (\<lambda>g. (g, limit)) gs,
      snd (search_genres search gs limit [] w))"
    by (simp add: search_genres_recording)
  have "int (length gs) \<le> n \<longrightarrow> 1 \<le> n div int (length gs)"
  proof
    assume le: "int (length gs) \<le> n"
    from run(1) have pos: "0 < int (length gs)" by simp
    have "int (length gs) div int (length gs) \<le> n div int (length gs)"
      using le pos by (intro zdiv_mono1) auto
    with pos show "1 \<le> n div int (length gs)" by simp
  qed
  then have mx: "int (length gs) \<le> n \<longrightarrow>
      max 1 (n div int (length gs)) + 1 = n div int (length gs) + 1" by auto
  let ?recs = "slice_to n (shuffle randbelow (first_occurrences {} all_movies))"
  let ?w = "snd (search_genres search gs limit [] w)"
  have "get_genres_for_emotion e = Inr gs \<and> gs \<noteq> [] \<and>
     recommend_movies (recording search) randbelow e n (reqs, w) =
       Inr (?recs, reqs @ map (\<lambda>g. (g, max 1 (n div int (length gs)) + 1)) gs, ?w) \<and>
     (int (length gs) \<le> n \<longrightarrow>
        max 1 (n div int (length gs)) + 1 = n div int (length gs) + 1)"
    using run(1,2,5) lw mx unfolding run(3) by simp
  then show ?thesis by (intro exI)
qed

text \<open>
  The emotion \<open>joy\<close> with its five genres and a count of 5: each search is asked for
  \<open>5 div 5 + 1 = 2\<close> movies.
\<close>

theorem requests_per_genre_witness:
  "int (length [''Comedy'', ''Romance'', ''Family'', ''Animation'', ''Musical'']) \<le> 5 \<and>
   recommend_movies (recording no_results) always_first ''joy'' 5 ([], ()) =
     Inr ([], [(''Comedy'', 2), (''Romance'', 2), (''Family'', 2), (''Animation'', 2),
               (''Musical'', 2)], ()) \<and>
   (5::int) div 5 + 1 = 2"
  using requests_per_genre [of "''joy''" no_results always_first 5 "[]" "()"]
  by (simp add: run_defs stub_defs)

text \<open>
  Claim C1 as stated fails for a count of 3 and the emotion \<open>joy\<close>: each of the five
  searches is asked for 2 movies, and not for \<open>3 div 5 + 1 = 1\<close>.
\<close>

theorem joy_three_requests_two_each:
  "recommend_movies (recording no_results) always_first ''joy'' 3 ([], ()) =
     Inr ([], [(''Comedy'', 2), (''Romance'', 2), (''Family'', 2), (''Animation'', 2),
               (''Musical'', 2)], ()) \<and>
   (3::int) div 5 + 1 \<noteq> 2"
  by (simp add: run_defs stub_defs)

text \<open>
  Claim C8. The result of \<^verbatim>\<open>recommend_movies\<close> has at most one movie for each
  identifier, and each movie in it is the first one with its identifier in the list
  \<^verbatim>\<open>all_movies\<close>, which holds the results of the searches in the order of the genres.
\<close>

theorem recommend_movies_first_wins:
  "\<exists>gs limit all_movies w' recs.
     get_genres_for_emotion e = Inr gs \<and>
     movies_per_genre n gs = Inr limit \<and>
     search_genres search gs limit [] w = (all_movies, w') \<and>
     recommend_movies search randbelow e n w = Inr (recs, w') \<and>
     distinct (map imdb_id recs) \<and>
     (\<forall>m\<in>set recs. find (\<lambda>x. imdb_id x = imdb_id m) all_movies = Some m)"
proof -
  obtain gs limit all_movies w' where run:
    "get_genres_for_emotion e = Inr gs" "movies_per_genre n gs = Inr limit"
    "search_genres search gs limit [] w = (all_movies, w')"
    "recommend_movies search randbelow e n w =
       Inr (slice_to n (shuffle randbelow (first_occurrences {} all_movies)), w')"
    using recommend_movies_runs [of e n search w randbelow] by blast
  let ?recs = "slice_to n (shuffle randbelow (first_occurrences {} all_movies))"
  have "distinct (map imdb_id (shuffle randbelow (first_occurrences {} all_movies)))"
    by (simp add: distinct_map_shuffle first_occurrences_distinct)
  then have d: "distinct (map imdb_id ?recs)" by (rule distinct_map_slice_to)
  have f: "\<forall>m\<in>set ?recs. find (\<lambda>x. imdb_id x = imdb_id m) all_movies = Some m"
  proof
    fix m assume m: "m \<in> set ?recs"
    have "set ?recs \<subseteq> set (shuffle randbelow (first_occurrences {} all_movies))"
      by (rule set_slice_to)
    then have "m \<in> set (shuffle randbelow (first_occurrences {} all_movies))"
      using m by (rule subsetD)
    then have "m \<in> set (first_occurrences {} all_movies)"
      unfolding set_shuffle .
    then show "find (\<lambda>x. imdb_id x = imdb_id m) all_movies = Some m"
      by (rule first_occurrences_find)
  qed
  have "get_genres_for_emotion e = Inr gs \<and>
     movies_per_genre n gs = Inr limit \<and>
     search_genres search gs limit [] w = (all_movies, w') \<and>
     recommend_movies search randbelow e n w = Inr (?recs, w') \<and>
     distinct (map imdb_id ?recs) \<and>
     (\<forall>m\<in>set ?recs. find (\<lambda>x. imdb_id x = imdb_id m) all_movies = Some m)"
    by (intro conjI run d f)
  then show ?thesis by (intro exI)
qed

text \<open>
  Two genres return a movie \<^verbatim>\<open>tt001\<close> under different titles: the one found first is
  recommended, the other is not.
\<close>

theorem recommend_movies_first_wins_witness:
  "search_genres overlapping_catalog
     [''Comedy'', ''Romance'', ''Family'', ''Animation'', ''Musical''] 2 [] () =
     ([sample_movie ''tt001'' ''First'', sample_movie ''tt001'' ''Second'',
       sample_movie ''tt002'' ''Other''], ()) \<and>
   recommend_movies overlapping_catalog always_first ''joy'' 3 () =
     Inr ([sample_movie ''tt002'' ''Other'', sample_movie ''tt001'' ''First''], ()) \<and>
   find (\<lambda>x. imdb_id x = ''tt001'')
     [sample_movie ''tt001'' ''First'', sample_movie ''tt001'' ''Second'',
      sample_movie ''tt002'' ''Other''] = Some (sample_movie ''tt001'' ''First'')"
  using recommend_movies_first_wins [of "''joy''" 3 overlapping_catalog "()" always_first]
  by (simp add: run_defs stub_defs)

text \<open>
  Claim C9. For every count of at least 1 and whatever the searches return,
  \<^verbatim>\<open>recommend_movies\<close> returns normally; the number of movies returned is the minimum of
  the count and the size of the pool without duplicates (which is the number of distinct
  identifiers found); no two of them share an identifier; and an empty pool gives the
  empty list as an ordinary result.
\<close>

theorem recommend_movies_size:
  assumes "1 \<le> n"
  shows "\<exists>gs limit all_movies w' recs.
     get_genres_for_emotion e = Inr gs \<and>
     movies_per_genre n gs = Inr limit \<and>
     search_genres search gs limit [] w = (all_movies, w') \<and>
     recommend_movies search randbelow e n w = Inr (recs, w') \<and>
     length recs = min (nat n) (length (remove_duplicates all_movies [])) \<and>
     length (remove_duplicates all_movies []) = card (imdb_id ` set all_movies) \<and>
     distinct (map imdb_id recs) \<and>
     (remove_duplicates all_movies [] = [] \<longrightarrow> recs = [])"
proof -
  obtain gs limit all_movies w' where run:
    "get_genres_for_emotion e = Inr gs" "movies_per_genre n gs = Inr limit"
    "search_genres search gs limit [] w = (all_movies, w')"
    "recommend_movies search randbelow e n w =
       Inr (slice_to n (shuffle randbelow (first_occurrences {} all_movies)), w')"
    using recommend_movies_runs [of e n search w randbelow] by blast
  let ?recs = "slice_to n (shuffle randbelow (first_occurrences {} all_movies))"
  have pool: "length (remove_duplicates all_movies []) = length (first_occurrences {} all_movies)"
    by (simp add: remove_duplicates_first_occurrences)
  from assms have len: "length ?recs = min (nat n) (length (remove_duplicates all_movies []))"
    by (simp add: length_slice_to length_shuffle pool)
  have crd: "length (remove_duplicates all_movies []) = card (imdb_id ` set all_movies)"
    by (simp add: pool length_first_occurrences)
  have "distinct (map imdb_id (shuffle randbelow (first_occurrences {} all_movies)))"
    by (simp add: distinct_map_shuffle first_occurrences_distinct)
  then have d: "distinct (map imdb_id ?recs)" by (rule distinct_map_slice_to)
  from len have z: "remove_duplicates all_movies [] = [] \<longrightarrow> ?recs = []" by auto
  have "get_genres_for_emotion e = Inr gs \<and>
     movies_per_genre n gs = Inr limit \<and>
     search_genres search gs limit [] w = (all_movies, w') \<and>
     recommend_movies search randbelow e n w = Inr (?recs, w') \<and>
     length ?recs = min (nat n) (length (remove_duplicates all_movies [])) \<and>
     length (remove_duplicates all_movies []) = card (imdb_id ` set all_movies) \<and>
     distinct (map imdb_id ?recs) \<and>
     (remove_duplicates all_movies [] = [] \<longrightarrow> ?recs = [])"
    using run len crd d z by simp
  then show ?thesis by (intro exI)
qed

text \<open>
  A count of 1 with a pool of two movies gives one movie; a catalogue that finds nothing
  gives the empty list.
\<close>

theorem recommend_movies_size_witness:
  "(1::int) \<le> 1 \<and>
   recommend_movies overlapping_catalog always_first ''joy'' 1 () =
     Inr ([sample_movie ''tt002'' ''Other''], ()) \<and>
   length (remove_duplicates
     [sample_movie ''tt001'' ''First'', sample_movie ''tt001'' ''Second'',
      sample_movie ''tt002'' ''Other''] []) = 2 \<and>
   recommend_movies no_results always_first ''joy'' 1 () = Inr ([], ())"
  using recommend_movies_size [of 1 "''joy''" overlapping_catalog "()" always_first]
    recommend_movies_size [of 1 "''joy''" no_results "()" always_first]
  by (simp add: run_defs stub_defs)

text \<open>
  Claim C10. Called with the count 0, \<^verbatim>\<open>recommend_movies\<close> does not raise: it asks each
  genre of the emotion for \<open>max 1 0 + 1 = 2\<close> movies and returns the empty list.
\<close>

theorem no_recommendations_requested:
  "\<exists>gs w'.
     get_genres_for_emotion e = Inr gs \<and> gs \<noteq> [] \<and>
     recommend_movies (recording search) randbelow e 0 (reqs, w) =
       Inr ([], reqs @ map (\<lambda>g. (g, 2)) gs, w')"
proof -
  obtain gs limit all_movies lw where run:
    "gs \<noteq> []" "get_genres_for_emotion e = Inr gs"
    "limit = max 1 (0 div int (length gs)) + 1"
    "search_genres (recording search) gs limit [] (reqs, w) = (all_movies, lw)"
    "recommend_movies (recording search) randbelow e 0 (reqs, w) =
       Inr (slice_to 0 (shuffle randbelow (first_occurrences {} all_movies)), lw)"
    using recommend_movies_runs [of e 0 "recording search" "(reqs, w)" randbelow] by blast
  from run(3) have two: "limit = 2" by simp
  from run(4) have lw: "lw = (reqs @ map (\<lambda>g. (g, limit)) gs,
      snd (search_genres search gs limit [] w))"
    by (simp add: search_genres_recording)
  have "slice_to 0 (shuffle randbelow (first_occurrences {} all_movies)) = []"
    by (simp add: slice_to_def)
  with run(1,2,5) two lw
  have "get_genres_for_emotion e = Inr gs \<and> gs \<noteq> [] \<and>
     recommend_movies (recording search) randbelow e 0 (reqs, w) =
       Inr ([], reqs @ map (\<lambda>g. (g, 2)) gs, snd (search_genres search gs 2 [] w))"
    by simp
  then show ?thesis by (intro exI)
qed

subsection \<open>The workflow\<close>

text \<open>
  Claim C2, as amended. \<^verbatim>\<open>analyze_mood_and_recommend\<close> prints the low-confidence warning
  exactly when the confidence is below 0.4, that is exactly when the confidence level is
  \<open>very_low\<close> (for the level \<open>low\<close> there is no warning). With or without the warning the
  recommender is run with the normalized emotion and the count, on the world the detection
  left; its recommendations are the ones returned, \<^verbatim>\<open>None\<close> standing for none.
\<close>

theorem low_confidence_warning:
  assumes "detect_emotion classifier text w = (r, w1)"
    and "analyze_mood_and_recommend classifier search randbelow text n w = (res, out, w2)"
  shows "(LowConfidenceWarning \<in> set out \<longleftrightarrow> emotion_result.confidence r < 0.4) \<and>
         (LowConfidenceWarning \<in> set out \<longleftrightarrow>
            get_emotion_confidence_level (emotion_result.confidence r) = very_low) \<and>
         (\<exists>recs. recommend_movies search randbelow (normalized_emotion r) n w1 = Inr (recs, w2) \<and>
            (case res of None \<Rightarrow> recs = [] | Some a \<Rightarrow> recs \<noteq> [] \<and> recommendations a = recs))"
proof -
  obtain recs w2' where rm:
    "recommend_movies search randbelow (normalized_emotion r) n w1 = Inr (recs, w2')"
    using recommend_movies_runs [of "normalized_emotion r" n search w1 randbelow] by blast
  obtain gs where gs: "get_genres_for_emotion (normalized_emotion r) = Inr gs"
    using genres_nonempty by blast
  have lvl: "get_emotion_confidence_level (emotion_result.confidence r) = very_low
      \<longleftrightarrow> emotion_result.confidence r < 0.4"
    by (simp add: get_emotion_confidence_level_def)
  show ?thesis
  proof (cases "recs = []")
    case True
    with assms rm have "res = None \<and> w2 = w2' \<and>
        (LowConfidenceWarning \<in> set out \<longleftrightarrow> emotion_result.confidence r < 0.4)"
      by (auto simp: analyze_mood_and_recommend_def Let_def)
    with rm True lvl show ?thesis by simp
  next
    case False
    with assms rm gs have "(\<exists>a. res = Some a \<and> recommendations a = recs) \<and> w2 = w2' \<and>
        (LowConfidenceWarning \<in> set out \<longleftrightarrow> emotion_result.confidence r < 0.4)"
      by (auto simp: analyze_mood_and_recommend_def Let_def movie_lines_no_warning)
    with rm False lvl show ?thesis by auto
  qed
qed

text \<open>
  A prediction with the score 0.3: the warning is printed and a movie is recommended.
\<close>

theorem low_confidence_warning_witness:
  "detect_emotion (fixed_classifier \<lparr>label = ''sadness'', score = 0.3\<rparr>) (codepoints ''meh'') () =
     (\<lparr>emotion = ''sadness'', emotion_result.confidence = 0.3,
       raw_prediction = Some \<lparr>label = ''sadness'', score = 0.3\<rparr>,
       normalized_emotion = ''sadness''\<rparr>, ()) \<and>
   analyze_mood_and_recommend (fixed_classifier \<lparr>label = ''sadness'', score = 0.3\<rparr>)
       overlapping_catalog always_first (codepoints ''meh'') 1 () =
     (Some \<lparr>emotion_analysis =
              \<lparr>emotion = ''sadness'', emotion_result.confidence = 0.3,
               raw_prediction = Some \<lparr>label = ''sadness'', score = 0.3\<rparr>,
               normalized_emotion = ''sadness''\<rparr>,
            detected_emotion = ''sadness'', confidence = 0.3, confidence_level = very_low,
            recommendations = [sample_movie ''tt002'' ''Other''],
            genres = [''Drama'', ''Animation'', ''Biography'', ''Romance'']\<rparr>,
      [AnalyzingMood (codepoints ''meh''), DetectedEmotion ''sadness'' 0.3 very_low,
       LowConfidenceWarning, LowConfidenceTip, FindingMovies ''sadness'',
       RecommendationsHeader 1 ''sadness'', Rule,
       MovieLine 1 (sample_movie ''tt002'' ''Other''), Rule], ()) \<and>
   recommend_movies overlapping_catalog always_first ''sadness'' 1 () =
     Inr ([sample_movie ''tt002'' ''Other''], ())"
proof -
  let ?c = "fixed_classifier \<lparr>label = ''sadness'', score = 0.3\<rparr>"
  let ?r = "\<lparr>emotion = ''sadness'', emotion_result.confidence = 0.3,
       raw_prediction = Some \<lparr>label = ''sadness'', score = 0.3\<rparr>,
       normalized_emotion = ''sadness''\<rparr>"
  have d: "detect_emotion ?c (codepoints ''meh'') () = (?r, ())"
    by (simp add: emotion_defs stub_defs)
  have rm: "recommend_movies overlapping_catalog always_first ''sadness'' 1 () =
     Inr ([sample_movie ''tt002'' ''Other''], ())"
    by (simp add: run_defs stub_defs)
  have a: "analyze_mood_and_recommend ?c overlapping_catalog always_first (codepoints ''meh'') 1 () =
     (Some \<lparr>emotion_analysis = ?r,
            detected_emotion = ''sadness'', confidence = 0.3, confidence_level = very_low,
            recommendations = [sample_movie ''tt002'' ''Other''],
            genres = [''Drama'', ''Animation'', ''Biography'', ''Romance'']\<rparr>,
      [AnalyzingMood (codepoints ''meh''), DetectedEmotion ''sadness'' 0.3 very_low,
       LowConfidenceWarning, LowConfidenceTip, FindingMovies ''sadness'',
       RecommendationsHeader 1 ''sadness'', Rule,
       MovieLine 1 (sample_movie ''tt002'' ''Other''), Rule], ())"
    by (simp add: analyze_mood_and_recommend_def emotion_defs stub_defs rm
        get_genres_for_emotion_def emotion_genre_mapping_def)
  from low_confidence_warning [OF d a] d a rm show ?thesis by simp
qed

text \<open>
  Claim C2 as stated fails for the level \<open>low\<close>: with a score of 0.5 no warning is
  printed.
\<close>

theorem low_level_without_warning:
  "get_emotion_confidence_level
     (emotion_result.confidence
        (fst (detect_emotion (fixed_classifier \<lparr>label = ''joy'', score = 0.5\<rparr>)
                (codepoints ''I feel fine'') ()))) = low \<and>
   LowConfidenceWarning \<notin>
     set (fst (snd (analyze_mood_and_recommend
                      (fixed_classifier \<lparr>label = ''joy'', score = 0.5\<rparr>)
                      overlapping_catalog always_first (codepoints ''I feel fine'') 3 ())))"
proof -
  let ?c = "fixed_classifier \<lparr>label = ''joy'', score = 0.5\<rparr>"
  have d: "detect_emotion ?c (codepoints ''I feel fine'') () =
     (\<lparr>emotion = ''joy'', emotion_result.confidence = 0.5,
       raw_prediction = Some \<lparr>label = ''joy'', score = 0.5\<rparr>,
       normalized_emotion = ''joy''\<rparr>, ())"
    by (simp add: emotion_defs stub_defs)
  have rm: "recommend_movies overlapping_catalog always_first ''joy'' 3 () =
     Inr ([sample_movie ''tt002'' ''Other'', sample_movie ''tt001'' ''First''], ())"
    by (simp add: run_defs stub_defs)
  have "fst (snd (analyze_mood_and_recommend ?c overlapping_catalog always_first
                    (codepoints ''I feel fine'') 3 ())) =
      [AnalyzingMood (codepoints ''I feel fine''), DetectedEmotion ''joy'' 0.5 low, FindingMovies ''joy'',
       RecommendationsHeader 2 ''joy'', Rule,
       MovieLine 1 (sample_movie ''tt002'' ''Other''), Rule,
       MovieLine 2 (sample_movie ''tt001'' ''First''), Rule]"
    by (simp add: analyze_mood_and_recommend_def emotion_defs stub_defs rm
        get_genres_for_emotion_def emotion_genre_mapping_def)
  then show ?thesis by (simp add: emotion_defs stub_defs)
qed

end
